theory Spec2Isabelle
  imports Complex_Main
begin

section \<open>Data model of the sentiment service (src/app.py)\<close>

text \<open>
  A Python \<open>str\<close> is a sequence of Unicode code points; slicing and \<open>len\<close> count code
  points, so a string is modelled as the list of its code points. \<open>py\<close> turns an ASCII
  literal of the source into that representation.
\<close>

type_synonym str = "nat list"

definition py :: "string \<Rightarrow> str" where
  "py s = map of_char s"

text \<open>
  \<open>str.strip()\<close> without argument removes leading and trailing whitespace, where
  whitespace is what \<open>str.isspace\<close> accepts: U+0009..U+000D, U+001C..U+0020, U+0085,
  U+00A0, U+1680, U+2000..U+200A, U+2028, U+2029, U+202F, U+205F and U+3000.
\<close>

definition isspace :: "nat \<Rightarrow> bool" where
  "isspace c \<longleftrightarrow>
     (9 \<le> c \<and> c \<le> 13) \<or> (28 \<le> c \<and> c \<le> 32) \<or> c = 133 \<or> c = 160 \<or> c = 5760 \<or>
     (8192 \<le> c \<and> c \<le> 8202) \<or> c = 8232 \<or> c = 8233 \<or> c = 8239 \<or> c = 8287 \<or> c = 12288"

definition strip :: "str \<Rightarrow> str" where
  "strip s = rev (dropWhile isspace (rev (dropWhile isspace s)))"

text \<open>
  A Python float is a binary double; it is modelled by its exact value, a real number.
  The literal \<open>0.6\<close> of the source is not the number 6/10, which no double equals, but
  the double nearest to it: 5404319552844595 / 2^53, a little below 6/10. Comparing two
  floats compares their exact values.
\<close>

definition float_0_6 :: real where
  "float_0_6 = 5404319552844595 / 2 ^ 53"

text \<open>
  \<open>round(x, ndigits)\<close> on a float rounds the exact value of \<open>x\<close> to the closest multiple
  of \<open>10 ^ -ndigits\<close>, a tie going to the even multiple.
\<close>

definition round_half_even :: "real \<Rightarrow> int" where
  "round_half_even y =
     (let f = \<lfloor>y\<rfloor>; d = y - of_int f
      in if d < 1 / 2 then f else if 1 / 2 < d then f + 1 else if even f then f else f + 1)"

definition py_round :: "real \<Rightarrow> nat \<Rightarrow> real" where
  "py_round x ndigits = of_int (round_half_even (x * 10 ^ ndigits)) / 10 ^ ndigits"

text \<open>
  \<open>HTTPException(status_code=..., detail=...)\<close>, the only exception the two endpoints
  let escape.
\<close>

datatype http_exception = HTTPException (status_code: nat) (detail: str)

text \<open>
  The first element of what the pipeline returns: a dict with the keys \<open>'label'\<close> and
  \<open>'score'\<close>.
\<close>

record prediction =
  label :: str
  score :: real

text \<open>
  The pipeline is an external collaborator: called on a text it either raises (\<open>Inl\<close> of
  the exception's \<open>str(e)\<close>) or returns a prediction, and it may change a state of its
  own. The world holds that state and, for the claims about what the pipeline is called
  on, the log of its calls: each input with its outcome, oldest first.
\<close>

type_synonym 'm pipeline = "str \<Rightarrow> 'm \<Rightarrow> (str + prediction) \<times> 'm"

record 'm world =
  model :: 'm
  calls :: "(str \<times> (str + prediction)) list"

definition call_pipeline ::
  "'m pipeline \<Rightarrow> str \<Rightarrow> 'm world \<Rightarrow> (str + prediction) \<times> 'm world" where
  "call_pipeline p t w =
     (case p t (model w) of
        (r, m') \<Rightarrow> (r, \<lparr>model = m', calls = calls w @ [(t, r)]\<rparr>))"

text \<open>
  The values of the response dicts are strings and floats; a dict keeps its keys in
  insertion order. \<open>SentimentOutput\<close> is the response model of \<open>POST /analyze\<close>, whose
  constructor is taken to store the values it is given; \<open>POST /batch-analyze\<close> returns
  the dict \<open>{"results": results}\<close>.
\<close>

datatype jvalue = Str str | Num real

type_synonym dict = "(string \<times> jvalue) list"

record sentiment_output =
  "text" :: str
  sentiment :: str
  confidence :: real
  all_scores :: "dict list"

record batch_output =
  results :: "dict list"

section \<open>The endpoints\<close>

text \<open>
  \<open>sentiment_pipeline\<close> is the module's global: \<open>None\<close> when loading the model failed
  at start, the pipeline otherwise. Both endpoints read it and take it here as their first
  argument.
\<close>

definition NEUTRAL :: str where
  "NEUTRAL = py ''NEUTRAL''"

text \<open>
  \<open>POST /analyze\<close>. \<open>input_text\<close> is \<open>input_data.text\<close>. Whatever the body of the
  \<open>try\<close> raises becomes a 500 carrying \<open>str(e)\<close>.
\<close>

definition analyze_sentiment ::
  "'m pipeline option \<Rightarrow> str \<Rightarrow> 'm world \<Rightarrow> (http_exception + sentiment_output) \<times> 'm world" where
  "analyze_sentiment sentiment_pipeline input_text w =
     (case sentiment_pipeline of
        None \<Rightarrow> (Inl (HTTPException 503 (py ''Model not loaded'')), w)
      | Some p \<Rightarrow>
          if strip input_text = [] then (Inl (HTTPException 400 (py ''Text cannot be empty'')), w)
          else
            (case call_pipeline p (take 512 input_text) w of
               (Inl e, w') \<Rightarrow> (Inl (HTTPException 500 e), w')
             | (Inr result, w') \<Rightarrow>
                 (Inr \<lparr>text = input_text,
                       sentiment = (if score result < float_0_6 then NEUTRAL else label result),
                       confidence = py_round (score result) 4,
                       all_scores = [[(''label'', Str (label result)),
                                      (''score'', Num (py_round (score result) 4))]]\<rparr>,
                  w')))"

text \<open>
  The \<open>for\<close> loop of \<open>POST /batch-analyze\<close> over the texts it was given, \<open>acc\<close> being the
  list \<open>results\<close> built so far. An exception of the pipeline leaves the loop at once.
\<close>

fun batch_loop ::
  "'m pipeline \<Rightarrow> str list \<Rightarrow> dict list \<Rightarrow> 'm world \<Rightarrow> (str + dict list) \<times> 'm world" where
  "batch_loop p [] acc w = (Inr acc, w)"
| "batch_loop p (t # ts) acc w =
     (if strip t \<noteq> [] then
        (case call_pipeline p (take 512 t) w of
           (Inl e, w') \<Rightarrow> (Inl e, w')
         | (Inr result, w') \<Rightarrow>
             batch_loop p ts
               (acc @ [[(''text'', Str t),
                        (''sentiment'',
                         Str (if score result < float_0_6 then NEUTRAL else label result)),
                        (''confidence'', Num (py_round (score result) 4))]])
               w')
      else batch_loop p ts acc w)"

definition batch_analyze_sentiment ::
  "'m pipeline option \<Rightarrow> str list \<Rightarrow> 'm world \<Rightarrow> (http_exception + batch_output) \<times> 'm world" where
  "batch_analyze_sentiment sentiment_pipeline texts w =
     (case sentiment_pipeline of
        None \<Rightarrow> (Inl (HTTPException 503 (py ''Model not loaded'')), w)
      | Some p \<Rightarrow>
          if texts = [] then (Inl (HTTPException 400 (py ''Texts list cannot be empty'')), w)
          else
            (case batch_loop p (take 10 texts) [] w of
               (Inl e, w') \<Rightarrow> (Inl (HTTPException 500 e), w')
             | (Inr acc, w') \<Rightarrow> (Inr \<lparr>results = acc\<rparr>, w')))"

section \<open>Vocabulary of the specification\<close>

text \<open>
  The four failure conditions of the specification are these exceptions of the source:
  status 503 when the pipeline is \<open>None\<close>, 400 for an empty text or an empty list, 500
  with the message of whatever the pipeline raised.
\<close>

definition ModelUnavailable :: http_exception where
  "ModelUnavailable = HTTPException 503 (py ''Model not loaded'')"

definition EmptyInput :: http_exception where
  "EmptyInput = HTTPException 400 (py ''Text cannot be empty'')"

definition EmptyBatch :: http_exception where
  "EmptyBatch = HTTPException 400 (py ''Texts list cannot be empty'')"

definition InferenceError :: "str \<Rightarrow> http_exception" where
  "InferenceError msg = HTTPException 500 msg"

text \<open>The pipeline calls made between an earlier world and a later one.\<close>

definition new_calls :: "'m world \<Rightarrow> 'm world \<Rightarrow> (str \<times> (str + prediction)) list" where
  "new_calls w w' = drop (length (calls w)) (calls w')"

text \<open>A text that is empty or made of whitespace only.\<close>

definition blank :: "str \<Rightarrow> bool" where
  "blank s \<longleftrightarrow> (\<forall>c \<in> set s. isspace c)"

text \<open>
  Mock pipelines for the concrete runs below. Each counts its calls in its own state, so
  every call changes the world. \<open>stub_pipeline\<close> answers every text with one fixed
  prediction; \<open>failing_pipeline\<close> raises on one text and answers every other one with
  (POSITIVE, 0.95). \<open>w0\<close> is the world before any call.
\<close>

definition stub_pipeline :: "str \<Rightarrow> real \<Rightarrow> nat pipeline" where
  "stub_pipeline l s = (\<lambda>t m. (Inr \<lparr>label = l, score = s\<rparr>, Suc m))"

definition failing_pipeline :: "str \<Rightarrow> str \<Rightarrow> nat pipeline" where
  "failing_pipeline bad msg =
     (\<lambda>t m. (if t = bad then Inl msg else Inr \<lparr>label = py ''POSITIVE'', score = 95 / 100\<rparr>,
             Suc m))"

definition w0 :: "nat world" where
  "w0 = \<lparr>model = 0, calls = []\<rparr>"

text \<open>Fifteen one-letter texts, for a batch longer than the limit.\<close>

definition fifteen_texts :: "str list" where
  "fifteen_texts = map py [''a'', ''b'', ''c'', ''d'', ''e'', ''f'', ''g'', ''h'', ''i'', ''j'',
                          ''k'', ''l'', ''m'', ''n'', ''o'']"

section \<open>The threshold, whitespace, the call log and the batch loop\<close>

text \<open>
  \<open>float_0_6\<close> is the double that the literal \<open>0.6\<close> denotes: a 53-bit significand over
  2^53, less than half a unit in the last place (2^-54) away from 6/10, and below it.
\<close>

lemma float_0_6_nearest:
  "float_0_6 = of_int 5404319552844595 / 2 ^ 53 \<and>
   (2::int) ^ 52 \<le> 5404319552844595 \<and> (5404319552844595::int) < 2 ^ 53 \<and>
   \<bar>float_0_6 - 6 / 10\<bar> < 1 / 2 ^ 54 \<and> float_0_6 < 6 / 10"
  by (simp add: float_0_6_def)

lemma strip_empty_iff: "strip s = [] \<longleftrightarrow> blank s"
proof
  assume "strip s = []"
  then have a: "\<forall>x \<in> set (dropWhile isspace s). isspace x"
    by (simp add: strip_def)
  have "dropWhile isspace s = []"
  proof (rule ccontr)
    assume n: "dropWhile isspace s \<noteq> []"
    then have "\<not> isspace (hd (dropWhile isspace s))"
      by (rule hd_dropWhile)
    moreover have "hd (dropWhile isspace s) \<in> set (dropWhile isspace s)"
      using n by (rule hd_in_set)
    ultimately show False using a by blast
  qed
  then show "blank s"
    by (simp add: blank_def)
next
  assume "blank s"
  then have d: "dropWhile isspace s = []"
    by (simp add: blank_def)
  show "strip s = []"
    unfolding strip_def d by simp
qed

lemma call_pipeline_calls:
  "call_pipeline p t w = (r, w') \<Longrightarrow> calls w' = calls w @ [(t, r)] \<and> r = fst (p t (model w))"
  by (auto simp: call_pipeline_def split: prod.splits)

lemma new_calls_self: "new_calls w w = []"
  by (simp add: new_calls_def)

lemma new_calls_append: "calls w' = calls w @ new \<Longrightarrow> new_calls w w' = new"
  by (simp add: new_calls_def)

lemma batch_loop_Cons_cases [consumes 1, case_names skip raise ok]:
  assumes "batch_loop p (t # ts) acc w = (r, w')"
  obtains
    "strip t = []" and "batch_loop p ts acc w = (r, w')"
  | e where "strip t \<noteq> []" and "call_pipeline p (take 512 t) w = (Inl e, w')" and "r = Inl e"
  | res w1 where "strip t \<noteq> []" and "call_pipeline p (take 512 t) w = (Inr res, w1)"
      and "batch_loop p ts
             (acc @ [[(''text'', Str t),
                      (''sentiment'', Str (if score res < float_0_6 then NEUTRAL else label res)),
                      (''confidence'', Num (py_round (score res) 4))]]) w1 = (r, w')"
proof (cases "strip t = []")
  case True
  with assms that(1) show ?thesis by simp
next
  case False
  obtain r1 w1 where c: "call_pipeline p (take 512 t) w = (r1, w1)"
    by (cases "call_pipeline p (take 512 t) w")
  show ?thesis
  proof (cases r1)
    case (Inl e)
    with assms False c that(2) show ?thesis by simp
  next
    case (Inr res)
    with assms False c that(3) show ?thesis by simp
  qed
qed

lemma batch_loop_extends:
  "batch_loop p ts acc w = (r, w') \<Longrightarrow> \<exists>new. calls w' = calls w @ new"
proof (induction ts arbitrary: acc w)
  case Nil
  then show ?case by simp
next
  case (Cons t ts)
  from Cons.prems show ?case
  proof (cases rule: batch_loop_Cons_cases)
    case skip
    then show ?thesis using Cons.IH by blast
  next
    case (raise e)
    then show ?thesis by (simp add: call_pipeline_calls)
  next
    case (ok res w1)
    from Cons.IH [OF ok(3)] call_pipeline_calls [OF ok(2)] show ?thesis by auto
  qed
qed

lemma new_calls_step:
  assumes "call_pipeline p t w = (r1, w1)" and "batch_loop p ts acc w1 = (r, w')"
  shows "new_calls w w' = (t, r1) # new_calls w1 w'"
proof -
  from batch_loop_extends [OF assms(2)] obtain new where n: "calls w' = calls w1 @ new"
    by blast
  with call_pipeline_calls [OF assms(1)] show ?thesis
    by (simp add: new_calls_def)
qed

lemma batch_loop_raise:
  "batch_loop p ts acc w = (r, w') \<Longrightarrow> (x, Inl msg) \<in> set (new_calls w w') \<Longrightarrow> r = Inl msg"
proof (induction ts arbitrary: acc w)
  case Nil
  then show ?case by (simp add: new_calls_self)
next
  case (Cons t ts)
  from Cons.prems(1) show ?case
  proof (cases rule: batch_loop_Cons_cases)
    case skip
    then show ?thesis using Cons.IH Cons.prems(2) by blast
  next
    case (raise e)
    from call_pipeline_calls [OF raise(2)] have "new_calls w w' = [(take 512 t, Inl e)]"
      by (simp add: new_calls_append)
    with Cons.prems(2) raise(3) show ?thesis by simp
  next
    case (ok res w1)
    from new_calls_step [OF ok(2) ok(3)] Cons.prems(2)
    have "(x, Inl msg) \<in> set (new_calls w1 w')" by simp
    with Cons.IH [OF ok(3)] show ?thesis by blast
  qed
qed

lemma batch_loop_texts:
  "batch_loop p ts acc w = (Inr acc', w') \<Longrightarrow>
   map (\<lambda>d. map_of d ''text'') acc' =
     map (\<lambda>d. map_of d ''text'') acc @ map (\<lambda>t. Some (Str t)) (filter (\<lambda>t. strip t \<noteq> []) ts) \<and>
   map fst (new_calls w w') = map (take 512) (filter (\<lambda>t. strip t \<noteq> []) ts)"
proof (induction ts arbitrary: acc w)
  case Nil
  then show ?case by (auto simp: new_calls_self)
next
  case (Cons t ts)
  from Cons.prems show ?case
  proof (cases rule: batch_loop_Cons_cases)
    case skip
    with Cons.IH [OF skip(2)] show ?thesis by simp
  next
    case (raise e)
    then show ?thesis by simp
  next
    case (ok res w1)
    from Cons.IH [OF ok(3)] new_calls_step [OF ok(2) ok(3)] ok(1) show ?thesis by simp
  qed
qed

lemma batch_loop_keys:
  "batch_loop p ts acc w = (Inr acc', w') \<Longrightarrow>
   \<forall>d \<in> set acc. map fst d = [''text'', ''sentiment'', ''confidence''] \<Longrightarrow>
   \<forall>d \<in> set acc'. map fst d = [''text'', ''sentiment'', ''confidence'']"
proof (induction ts arbitrary: acc w)
  case Nil
  then show ?case by simp
next
  case (Cons t ts)
  from Cons.prems(1) show ?case
  proof (cases rule: batch_loop_Cons_cases)
    case skip
    with Cons.IH Cons.prems(2) show ?thesis by blast
  next
    case (raise e)
    then show ?thesis by simp
  next
    case (ok res w1)
    show ?thesis
      by (rule Cons.IH [OF ok(3)]) (use Cons.prems(2) in simp)
  qed
qed

lemma batch_loop_filter:
  "batch_loop p (filter (\<lambda>t. strip t \<noteq> []) ts) acc w = batch_loop p ts acc w"
  by (induction ts arbitrary: acc w) (simp_all split: prod.splits sum.splits)

lemma batch_loop_blank:
  "\<forall>t \<in> set ts. strip t = [] \<Longrightarrow> batch_loop p ts acc w = (Inr acc, w)"
  by (induction ts) simp_all

lemma round_half_even_near: "\<bar>of_int (round_half_even y) - y\<bar> \<le> 1 / 2"
proof -
  have "of_int \<lfloor>y\<rfloor> \<le> y" and "y < of_int \<lfloor>y\<rfloor> + 1"
    by linarith+
  then show ?thesis
    by (auto simp: round_half_even_def Let_def)
qed

lemma py_round_near: "\<bar>py_round x n - x\<bar> \<le> 1 / (2 * 10 ^ n)"
proof -
  have p: "(0::real) < 10 ^ n" by simp
  have "\<bar>py_round x n - x\<bar> = \<bar>of_int (round_half_even (x * 10 ^ n)) - x * 10 ^ n\<bar> / 10 ^ n"
    using p by (simp add: py_round_def field_simps abs_divide flip: abs_mult)
  also have "\<dots> \<le> (1 / 2) / 10 ^ n"
    by (rule divide_right_mono [OF round_half_even_near]) simp
  finally show ?thesis by simp
qed

section \<open>What a run of each endpoint returns\<close>

text \<open>
  \<open>POST /analyze\<close> on a text that is not blank: the pipeline is called once, on the
  first 512 characters, and the answer is built from what it returns or raises.
\<close>

lemma analyze_sentiment_run:
  assumes "strip input_text \<noteq> []"
  shows "analyze_sentiment (Some p) input_text w =
     (case fst (p (take 512 input_text) (model w)) of
        Inl e \<Rightarrow> Inl (HTTPException 500 e)
      | Inr result \<Rightarrow>
          Inr \<lparr>text = input_text,
                sentiment = (if score result < float_0_6 then NEUTRAL else label result),
                confidence = py_round (score result) 4,
                all_scores = [[(''label'', Str (label result)),
                               (''score'', Num (py_round (score result) 4))]]\<rparr>,
      \<lparr>model = snd (p (take 512 input_text) (model w)),
       calls = calls w @ [(take 512 input_text, fst (p (take 512 input_text) (model w)))]\<rparr>)"
  using assms
  by (simp add: analyze_sentiment_def call_pipeline_def split: prod.splits sum.splits)

lemma analyze_sentiment_ok:
  assumes "strip input_text \<noteq> []"
    and "p (take 512 input_text) (model w) = (Inr result, m')"
  shows "analyze_sentiment (Some p) input_text w =
     (Inr \<lparr>text = input_text,
           sentiment = (if score result < float_0_6 then NEUTRAL else label result),
           confidence = py_round (score result) 4,
           all_scores = [[(''label'', Str (label result)),
                          (''score'', Num (py_round (score result) 4))]]\<rparr>,
      \<lparr>model = m', calls = calls w @ [(take 512 input_text, Inr result)]\<rparr>)"
  using assms by (simp add: analyze_sentiment_def call_pipeline_def)

lemma analyze_sentiment_fst:
  "fst (analyze_sentiment (Some p) input_text w) =
     (if strip input_text = [] then Inl (HTTPException 400 (py ''Text cannot be empty''))
      else case fst (p (take 512 input_text) (model w)) of
        Inl e \<Rightarrow> Inl (HTTPException 500 e)
      | Inr result \<Rightarrow>
          Inr \<lparr>text = input_text,
                sentiment = (if score result < float_0_6 then NEUTRAL else label result),
                confidence = py_round (score result) 4,
                all_scores = [[(''label'', Str (label result)),
                               (''score'', Num (py_round (score result) 4))]]\<rparr>)"
  by (simp add: analyze_sentiment_def call_pipeline_def split: prod.splits sum.splits)

text \<open>
  A successful \<open>POST /batch-analyze\<close> had a pipeline, a list that was not empty and
  a loop that ran to its end.
\<close>

lemma batch_success_cases:
  assumes "batch_analyze_sentiment sp texts w = (Inr out, w')"
  obtains p where "sp = Some p" and "texts \<noteq> []"
    and "batch_loop p (take 10 texts) [] w = (Inr (results out), w')"
proof (cases sp)
  case None
  with assms show ?thesis
    by (simp add: batch_analyze_sentiment_def)
next
  case (Some p)
  with assms have "texts \<noteq> []"
    by (auto simp: batch_analyze_sentiment_def)
  moreover from Some assms this have "batch_loop p (take 10 texts) [] w = (Inr (results out), w')"
    by (auto simp: batch_analyze_sentiment_def split: prod.splits sum.splits)
  ultimately show ?thesis
    using Some that by blast
qed

lemma strip_filter: "filter (\<lambda>t. strip t \<noteq> []) ts = filter (\<lambda>t. \<not> blank t) ts"
  by (simp add: strip_empty_iff)

lemma py_round_grid: "\<exists>k::int. py_round x n = of_int k / 10 ^ n"
  by (auto simp: py_round_def)

section \<open>The single-text endpoint\<close>

text \<open>
  C1. When the pipeline answers with (rawLabel, score), the label of the single-text
  response is NEUTRAL if the score is below 0.6 and rawLabel, unchanged, if the score is
  at least 0.6, where the score is a float and 0.6 the float of the source's comparison
  \<open>confidence < 0.6\<close>. A score equal to that float, which is what a score of exactly 0.6
  is, gives rawLabel; the next float below it, and 0.5, give NEUTRAL.
\<close>

theorem decision_threshold:
  assumes "strip input_text \<noteq> []"
    and "p (take 512 input_text) (model w) = (Inr result, m')"
  shows "\<exists>out. fst (analyze_sentiment (Some p) input_text w) = Inr out \<and>
           (score result < float_0_6 \<longrightarrow> sentiment out = NEUTRAL) \<and>
           (float_0_6 \<le> score result \<longrightarrow> sentiment out = label result)"
  using analyze_sentiment_ok [of input_text p w result m'] assms by simp

theorem decision_threshold_witness:
  "strip (py ''meh'') \<noteq> [] \<and>
   stub_pipeline (py ''NEGATIVE'') float_0_6 (take 512 (py ''meh'')) (model w0) =
     (Inr \<lparr>label = py ''NEGATIVE'', score = float_0_6\<rparr>, 1) \<and>
   (\<exists>out. fst (analyze_sentiment (Some (stub_pipeline (py ''NEGATIVE'') float_0_6)) (py ''meh'') w0)
             = Inr out \<and> sentiment out = py ''NEGATIVE'') \<and>
   stub_pipeline (py ''NEGATIVE'') (5404319552844594 / 2 ^ 53) (take 512 (py ''meh'')) (model w0) =
     (Inr \<lparr>label = py ''NEGATIVE'', score = 5404319552844594 / 2 ^ 53\<rparr>, 1) \<and>
   (\<exists>out. fst (analyze_sentiment (Some (stub_pipeline (py ''NEGATIVE'') (5404319552844594 / 2 ^ 53)))
                 (py ''meh'') w0)
             = Inr out \<and> sentiment out = NEUTRAL) \<and>
   stub_pipeline (py ''NEGATIVE'') (1 / 2) (take 512 (py ''meh'')) (model w0) =
     (Inr \<lparr>label = py ''NEGATIVE'', score = 1 / 2\<rparr>, 1) \<and>
   (\<exists>out. fst (analyze_sentiment (Some (stub_pipeline (py ''NEGATIVE'') (1 / 2))) (py ''meh'') w0)
             = Inr out \<and> sentiment out = NEUTRAL)"
proof -
  have h: "strip (py ''meh'') \<noteq> []"
    by (simp add: strip_def py_def isspace_def)
  have a: "stub_pipeline (py ''NEGATIVE'') s (take 512 (py ''meh'')) (model w0) =
     (Inr \<lparr>label = py ''NEGATIVE'', score = s\<rparr>, 1)" for s
    by (simp add: stub_pipeline_def w0_def)
  have at: "\<exists>out. fst (analyze_sentiment (Some (stub_pipeline (py ''NEGATIVE'') float_0_6))
                        (py ''meh'') w0) = Inr out \<and> sentiment out = py ''NEGATIVE''"
    using decision_threshold [of "py ''meh''" "stub_pipeline (py ''NEGATIVE'') float_0_6" w0
        "\<lparr>label = py ''NEGATIVE'', score = float_0_6\<rparr>" 1, OF h a]
    by simp
  have "(5404319552844594 / 2 ^ 53 :: real) < float_0_6"
    by (simp add: float_0_6_def)
  then have below: "\<exists>out. fst (analyze_sentiment
        (Some (stub_pipeline (py ''NEGATIVE'') (5404319552844594 / 2 ^ 53))) (py ''meh'') w0)
          = Inr out \<and> sentiment out = NEUTRAL"
    using decision_threshold [of "py ''meh''"
        "stub_pipeline (py ''NEGATIVE'') (5404319552844594 / 2 ^ 53)" w0
        "\<lparr>label = py ''NEGATIVE'', score = 5404319552844594 / 2 ^ 53\<rparr>" 1, OF h a]
    by auto
  have "(1 / 2 :: real) < float_0_6"
    by (simp add: float_0_6_def)
  then have half: "\<exists>out. fst (analyze_sentiment (Some (stub_pipeline (py ''NEGATIVE'') (1 / 2)))
        (py ''meh'') w0) = Inr out \<and> sentiment out = NEUTRAL"
    using decision_threshold [of "py ''meh''" "stub_pipeline (py ''NEGATIVE'') (1 / 2)" w0
        "\<lparr>label = py ''NEGATIVE'', score = 1 / 2\<rparr>" 1, OF h a]
    by auto
  from h a at below half show ?thesis
    by blast
qed

text \<open>
  C3. For a text whose stripped form is not empty, the pipeline is called exactly once,
  on the first 512 characters of the text, while the \<open>text\<close> field of a successful
  response is the whole text as it was sent. The concrete run sends 600 characters: the
  pipeline sees 512 of them, the response carries all 600.
\<close>

theorem truncated_call_original_echo:
  assumes "strip input_text \<noteq> []"
    and "analyze_sentiment (Some p) input_text w = (r, w')"
  shows "new_calls w w' = [(take 512 input_text, fst (p (take 512 input_text) (model w)))] \<and>
         (\<forall>result. fst (p (take 512 input_text) (model w)) = Inr result \<longrightarrow>
            (\<exists>out. r = Inr out \<and> text out = input_text))"
  using analyze_sentiment_run [OF assms(1), of p w] assms(2)
  by (auto simp: new_calls_def)

theorem truncated_call_original_echo_witness:
  "strip (replicate 600 97) \<noteq> [] \<and>
   analyze_sentiment (Some (stub_pipeline (py ''POSITIVE'') (95 / 100))) (replicate 600 97) w0 =
     (Inr \<lparr>text = replicate 600 97, sentiment = py ''POSITIVE'', confidence = 95 / 100,
           all_scores = [[(''label'', Str (py ''POSITIVE'')), (''score'', Num (95 / 100))]]\<rparr>,
      \<lparr>model = 1,
       calls = [(replicate 512 97, Inr \<lparr>label = py ''POSITIVE'', score = 95 / 100\<rparr>)]\<rparr>) \<and>
   new_calls w0
     \<lparr>model = 1,
      calls = [(replicate 512 97, Inr \<lparr>label = py ''POSITIVE'', score = 95 / 100\<rparr>)]\<rparr> =
     [(replicate 512 97, Inr \<lparr>label = py ''POSITIVE'', score = 95 / 100\<rparr>)] \<and>
   replicate 512 97 \<noteq> replicate 600 (97 :: nat)"
proof -
  have nb: "\<not> blank (replicate 600 97)"
    by (simp add: blank_def isspace_def)
  then have s: "strip (replicate 600 97) \<noteq> []"
    by (simp add: strip_empty_iff)
  have run: "analyze_sentiment (Some (stub_pipeline (py ''POSITIVE'') (95 / 100))) (replicate 600 97) w0 =
     (Inr \<lparr>text = replicate 600 97, sentiment = py ''POSITIVE'', confidence = 95 / 100,
           all_scores = [[(''label'', Str (py ''POSITIVE'')), (''score'', Num (95 / 100))]]\<rparr>,
      \<lparr>model = 1,
       calls = [(replicate 512 97, Inr \<lparr>label = py ''POSITIVE'', score = 95 / 100\<rparr>)]\<rparr>)"
    using s
    by (simp add: analyze_sentiment_def stub_pipeline_def call_pipeline_def w0_def
        py_round_def round_half_even_def Let_def float_0_6_def)
  have d: "replicate 512 97 \<noteq> replicate 600 (97 :: nat)"
    by (simp add: replicate_eq_replicate)
  from truncated_call_original_echo [OF s run] s run d show ?thesis
    by (simp add: stub_pipeline_def w0_def)
qed

text \<open>
  C4. A text that is empty or whitespace-only is refused with the EmptyInput error (status
  400) and the pipeline is not called: the world, with its call log, comes back as it was.
  The same holds for the ModelUnavailable check, which comes first: without a pipeline
  every text is refused with status 503 and nothing is called. The EmptyInput answer is
  that of a service whose pipeline was loaded.
\<close>

theorem validation_before_inference:
  "(blank input_text \<longrightarrow>
      analyze_sentiment (Some p) input_text w = (Inl EmptyInput, w) \<and>
      new_calls w (snd (analyze_sentiment (Some p) input_text w)) = []) \<and>
   analyze_sentiment None input_text w = (Inl ModelUnavailable, w) \<and>
   new_calls w (snd (analyze_sentiment None input_text w)) = []"
  by (simp add: analyze_sentiment_def strip_empty_iff EmptyInput_def ModelUnavailable_def
      new_calls_self)

theorem validation_before_inference_witness:
  "blank [] \<and> blank (py ''   '') \<and>
   analyze_sentiment (Some (stub_pipeline (py ''POSITIVE'') (95 / 100))) [] w0 =
     (Inl (HTTPException 400 (py ''Text cannot be empty'')), w0) \<and>
   analyze_sentiment (Some (stub_pipeline (py ''POSITIVE'') (95 / 100))) (py ''   '') w0 =
     (Inl (HTTPException 400 (py ''Text cannot be empty'')), w0) \<and>
   calls w0 = []"
proof -
  have e: "blank []" and s: "blank (py ''   '')"
    by (simp_all add: blank_def py_def isspace_def)
  from validation_before_inference [of "[]" "stub_pipeline (py ''POSITIVE'') (95 / 100)" w0]
    validation_before_inference [of "py ''   ''" "stub_pipeline (py ''POSITIVE'') (95 / 100)" w0]
    e s
  show ?thesis
    by (simp add: EmptyInput_def w0_def)
qed

text \<open>
  C7. For a text that is not blank and a pipeline that answers with a score, the
  \<open>confidence\<close> of the response is \<open>round(score, 4)\<close>: a multiple of \<open>1 / 10 ^ 4\<close>,
  that is a number of four decimal digits, at most half such a unit away from the score.
  The runs round 0.123456 to 0.1235, leave 0.95 as it is and send the tie 0.03125 to the
  even neighbour 0.0312.
\<close>

theorem confidence_rounded:
  assumes "strip input_text \<noteq> []"
    and "p (take 512 input_text) (model w) = (Inr result, m')"
  shows "\<exists>out. fst (analyze_sentiment (Some p) input_text w) = Inr out \<and>
           confidence out = py_round (score result) 4 \<and>
           (\<exists>k::int. confidence out = of_int k / 10 ^ 4) \<and>
           \<bar>confidence out - score result\<bar> \<le> 1 / (2 * 10 ^ 4)"
  using analyze_sentiment_ok [of input_text p w result m'] assms
    py_round_grid [of "score result" 4] py_round_near [of "score result" 4]
  by simp

theorem confidence_rounded_witness:
  "strip (py ''fine'') \<noteq> [] \<and>
   stub_pipeline (py ''POSITIVE'') (123456 / 1000000) (take 512 (py ''fine'')) (model w0) =
     (Inr \<lparr>label = py ''POSITIVE'', score = 123456 / 1000000\<rparr>, 1) \<and>
   (\<exists>out. fst (analyze_sentiment (Some (stub_pipeline (py ''POSITIVE'') (123456 / 1000000)))
                 (py ''fine'') w0) = Inr out \<and>
          confidence out = 1235 / 10000) \<and>
   py_round (95 / 100) 4 = 95 / 100 \<and> py_round (1 / 32) 4 = 312 / 10000"
proof -
  have h: "strip (py ''fine'') \<noteq> []"
    by (simp add: strip_def py_def isspace_def)
  have a: "stub_pipeline (py ''POSITIVE'') (123456 / 1000000) (take 512 (py ''fine'')) (model w0) =
     (Inr \<lparr>label = py ''POSITIVE'', score = 123456 / 1000000\<rparr>, 1)"
    by (simp add: stub_pipeline_def w0_def)
  have r: "py_round (123456 / 1000000) 4 = 1235 / 10000"
    and r': "py_round (95 / 100) 4 = 95 / 100" and r'': "py_round (1 / 32) 4 = 312 / 10000"
    by (simp_all add: py_round_def round_half_even_def Let_def float_0_6_def)
  from confidence_rounded [of "py ''fine''" "stub_pipeline (py ''POSITIVE'') (123456 / 1000000)"
      w0 "\<lparr>label = py ''POSITIVE'', score = 123456 / 1000000\<rparr>" 1, OF h a]
  obtain out where
    o: "fst (analyze_sentiment (Some (stub_pipeline (py ''POSITIVE'') (123456 / 1000000)))
              (py ''fine'') w0) = Inr out"
    and c: "confidence out = py_round (score \<lparr>label = py ''POSITIVE'', score = 123456 / 1000000\<rparr>) 4"
    by blast
  from c r have "confidence out = 1235 / 10000"
    by simp
  with o h a r' r'' show ?thesis
    by blast
qed

text \<open>
  C9. If what the pipeline returns depends on the text only and not on its own state,
  then calling the single-text endpoint a second time on the same text, in the world the
  first call left behind, gives the same response, and so the same label and the same
  confidence; indeed the response is the same from any two worlds.
\<close>

theorem analyze_twice_same:
  assumes "\<forall>t m1 m2. fst (p t m1) = fst (p t m2)"
  shows "fst (analyze_sentiment (Some p) input_text
                (snd (analyze_sentiment (Some p) input_text w))) =
         fst (analyze_sentiment (Some p) input_text w) \<and>
         fst (analyze_sentiment (Some p) input_text w1) =
         fst (analyze_sentiment (Some p) input_text w2)"
proof -
  have same: "fst (analyze_sentiment (Some p) input_text u) =
              fst (analyze_sentiment (Some p) input_text v)" for u v :: "'a world"
  proof -
    from assms
    have e: "fst (p (take 512 input_text) (model u)) = fst (p (take 512 input_text) (model v))"
      by blast
    show ?thesis
      by (simp only: analyze_sentiment_fst e)
  qed
  then show ?thesis
    by blast
qed

theorem analyze_twice_same_witness:
  "(\<forall>t m1 m2. fst (stub_pipeline (py ''POSITIVE'') (95 / 100) t m1) =
               fst (stub_pipeline (py ''POSITIVE'') (95 / 100) t m2)) \<and>
   snd (analyze_sentiment (Some (stub_pipeline (py ''POSITIVE'') (95 / 100))) (py ''I love this!'') w0)
     \<noteq> w0 \<and>
   fst (analyze_sentiment (Some (stub_pipeline (py ''POSITIVE'') (95 / 100))) (py ''I love this!'')
          (snd (analyze_sentiment (Some (stub_pipeline (py ''POSITIVE'') (95 / 100)))
                  (py ''I love this!'') w0))) =
   fst (analyze_sentiment (Some (stub_pipeline (py ''POSITIVE'') (95 / 100))) (py ''I love this!'') w0)"
proof -
  have d: "\<forall>t m1 m2. fst (stub_pipeline (py ''POSITIVE'') (95 / 100) t m1) =
               fst (stub_pipeline (py ''POSITIVE'') (95 / 100) t m2)"
    by (simp add: stub_pipeline_def)
  have c: "snd (analyze_sentiment (Some (stub_pipeline (py ''POSITIVE'') (95 / 100)))
                  (py ''I love this!'') w0) \<noteq> w0"
    by (simp add: analyze_sentiment_def stub_pipeline_def call_pipeline_def w0_def
        strip_def py_def isspace_def)
  from analyze_twice_same [OF d, of "py ''I love this!''" w0] d c show ?thesis
    by blast
qed

section \<open>The batch endpoint\<close>

text \<open>
  C2. If during a batch request some call of the pipeline raised, with message \<open>msg\<close>,
  then the whole request fails with the InferenceError (status 500) carrying \<open>msg\<close>:
  the answer is that exception alone, and the records of the items classified before the
  failing one are not part of it. In the run the first item is classified, the second
  raises, and only the exception comes back.
\<close>

theorem batch_failure_aborts:
  assumes "batch_analyze_sentiment sp texts w = (r, w')"
    and "(x, Inl msg) \<in> set (new_calls w w')"
  shows "r = Inl (InferenceError msg)"
proof (cases sp)
  case None
  with assms show ?thesis
    by (auto simp: batch_analyze_sentiment_def new_calls_self)
next
  case (Some p)
  show ?thesis
  proof (cases "texts = []")
    case True
    with Some assms show ?thesis
      by (auto simp: batch_analyze_sentiment_def new_calls_self)
  next
    case False
    obtain r1 w1 where l: "batch_loop p (take 10 texts) [] w = (r1, w1)"
      by (cases "batch_loop p (take 10 texts) [] w")
    with Some False assms(1) have w: "w' = w1"
      by (auto simp: batch_analyze_sentiment_def split: sum.splits)
    with batch_loop_raise [OF l] assms(2) have "r1 = Inl msg"
      by simp
    with Some False assms(1) l show ?thesis
      by (simp add: batch_analyze_sentiment_def InferenceError_def)
  qed
qed

theorem batch_failure_aborts_witness:
  "batch_analyze_sentiment (Some (failing_pipeline (py ''bad'') (py ''boom'')))
     [py ''good'', py ''bad'', py ''late''] w0 =
     (Inl (HTTPException 500 (py ''boom'')),
      \<lparr>model = 2,
       calls = [(py ''good'', Inr \<lparr>label = py ''POSITIVE'', score = 95 / 100\<rparr>),
                (py ''bad'', Inl (py ''boom''))]\<rparr>) \<and>
   (py ''bad'', Inl (py ''boom'')) \<in>
     set (new_calls w0
       \<lparr>model = 2,
        calls = [(py ''good'', Inr \<lparr>label = py ''POSITIVE'', score = 95 / 100\<rparr>),
                 (py ''bad'', Inl (py ''boom''))]\<rparr>)"
proof -
  have run: "batch_analyze_sentiment (Some (failing_pipeline (py ''bad'') (py ''boom'')))
     [py ''good'', py ''bad'', py ''late''] w0 =
     (Inl (HTTPException 500 (py ''boom'')),
      \<lparr>model = 2,
       calls = [(py ''good'', Inr \<lparr>label = py ''POSITIVE'', score = 95 / 100\<rparr>),
                (py ''bad'', Inl (py ''boom''))]\<rparr>)"
    by (simp add: batch_analyze_sentiment_def failing_pipeline_def call_pipeline_def w0_def
        strip_def py_def isspace_def py_round_def round_half_even_def Let_def float_0_6_def)
  have mem: "(py ''bad'', Inl (py ''boom'')) \<in>
     set (new_calls w0
       \<lparr>model = 2,
        calls = [(py ''good'', Inr \<lparr>label = py ''POSITIVE'', score = 95 / 100\<rparr>),
                 (py ''bad'', Inl (py ''boom''))]\<rparr>)"
    by (simp add: new_calls_def w0_def)
  from batch_failure_aborts [OF run mem] run mem show ?thesis
    by (simp add: InferenceError_def)
qed

text \<open>
  C5. Only the first 10 items of the list count: the request behaves exactly as the
  request made of these 10 alone, so later items produce neither a record nor an error nor
  a pipeline call, and a successful answer has at most 10 records, after at most 10
  calls. In the run 15 texts give the records of the first 10.
\<close>

theorem batch_first_ten:
  "batch_analyze_sentiment sp texts w = batch_analyze_sentiment sp (take 10 texts) w \<and>
   (\<forall>out w'. batch_analyze_sentiment sp texts w = (Inr out, w') \<longrightarrow>
      length (results out) \<le> 10 \<and> length (new_calls w w') \<le> 10)"
proof (intro conjI allI impI)
  show "batch_analyze_sentiment sp texts w = batch_analyze_sentiment sp (take 10 texts) w"
    by (cases sp; cases "texts = []") (simp_all add: batch_analyze_sentiment_def)
next
  fix out w'
  assume "batch_analyze_sentiment sp texts w = (Inr out, w')"
  then obtain p where l: "batch_loop p (take 10 texts) [] w = (Inr (results out), w')"
    by (rule batch_success_cases)
  let ?kept = "filter (\<lambda>t. strip t \<noteq> []) (take 10 texts)"
  have k: "length ?kept \<le> 10"
    by (rule order_trans [OF length_filter_le]) simp
  from batch_loop_texts [OF l] have "length (results out) = length ?kept"
    and "length (new_calls w w') = length ?kept"
    by (auto dest: map_eq_imp_length_eq)
  with k show "length (results out) \<le> 10" and "length (new_calls w w') \<le> 10"
    by simp_all
qed

theorem batch_first_ten_witness:
  "batch_analyze_sentiment (Some (stub_pipeline (py ''POSITIVE'') (95 / 100))) fifteen_texts w0 =
     (Inr \<lparr>results =
        map (\<lambda>t. [(''text'', Str t), (''sentiment'', Str (py ''POSITIVE'')),
                  (''confidence'', Num (95 / 100))]) (take 10 fifteen_texts)\<rparr>,
      \<lparr>model = 10,
       calls = map (\<lambda>t. (t, Inr \<lparr>label = py ''POSITIVE'', score = 95 / 100\<rparr>))
                 (take 10 fifteen_texts)\<rparr>) \<and>
   length fifteen_texts = 15 \<and>
   length (results \<lparr>results =
        map (\<lambda>t. [(''text'', Str t), (''sentiment'', Str (py ''POSITIVE'')),
                  (''confidence'', Num (95 / 100))]) (take 10 fifteen_texts)\<rparr>) \<le> 10 \<and>
   length (new_calls w0 \<lparr>model = 10,
       calls = map (\<lambda>t. (t, Inr \<lparr>label = py ''POSITIVE'', score = 95 / 100\<rparr>))
                 (take 10 fifteen_texts)\<rparr>) \<le> 10"
proof -
  have run: "batch_analyze_sentiment (Some (stub_pipeline (py ''POSITIVE'') (95 / 100))) fifteen_texts w0 =
     (Inr \<lparr>results =
        map (\<lambda>t. [(''text'', Str t), (''sentiment'', Str (py ''POSITIVE'')),
                  (''confidence'', Num (95 / 100))]) (take 10 fifteen_texts)\<rparr>,
      \<lparr>model = 10,
       calls = map (\<lambda>t. (t, Inr \<lparr>label = py ''POSITIVE'', score = 95 / 100\<rparr>))
                 (take 10 fifteen_texts)\<rparr>)"
    by (simp add: batch_analyze_sentiment_def fifteen_texts_def stub_pipeline_def
        call_pipeline_def w0_def strip_def py_def isspace_def py_round_def round_half_even_def
        Let_def float_0_6_def)
  have len: "length fifteen_texts = 15"
    by (simp add: fifteen_texts_def)
  from batch_first_ten [of "Some (stub_pipeline (py ''POSITIVE'') (95 / 100))" fifteen_texts w0]
    run
  have "length (results \<lparr>results =
        map (\<lambda>t. [(''text'', Str t), (''sentiment'', Str (py ''POSITIVE'')),
                  (''confidence'', Num (95 / 100))]) (take 10 fifteen_texts)\<rparr>) \<le> 10 \<and>
   length (new_calls w0 \<lparr>model = 10,
       calls = map (\<lambda>t. (t, Inr \<lparr>label = py ''POSITIVE'', score = 95 / 100\<rparr>))
                 (take 10 fifteen_texts)\<rparr>) \<le> 10"
    by blast
  with run len show ?thesis
    by blast
qed

text \<open>
  C6. In a successful batch answer the \<open>text\<close> fields of the records are, in order,
  the items among the first 10 that are not blank, and the pipeline was called on the
  first 512 characters of each of them, in that order. A blank item has no effect at all:
  when some retained item is not blank, the request behaves exactly as the request with
  the blank items removed. In the run \<open>["hello", "", "   ", "world"]\<close> gives two records,
  for hello and then world.
\<close>

theorem batch_skips_blank_in_order:
  "(\<forall>out w'. batch_analyze_sentiment sp texts w = (Inr out, w') \<longrightarrow>
      map (\<lambda>d. map_of d ''text'') (results out) =
        map (\<lambda>t. Some (Str t)) (filter (\<lambda>t. \<not> blank t) (take 10 texts)) \<and>
      map fst (new_calls w w') = map (take 512) (filter (\<lambda>t. \<not> blank t) (take 10 texts))) \<and>
   (filter (\<lambda>t. \<not> blank t) (take 10 texts) \<noteq> [] \<longrightarrow>
      batch_analyze_sentiment sp texts w =
        batch_analyze_sentiment sp (filter (\<lambda>t. \<not> blank t) (take 10 texts)) w)"
proof (intro conjI allI impI)
  fix out w'
  assume "batch_analyze_sentiment sp texts w = (Inr out, w')"
  then obtain p where l: "batch_loop p (take 10 texts) [] w = (Inr (results out), w')"
    by (rule batch_success_cases)
  from batch_loop_texts [OF l]
  show "map (\<lambda>d. map_of d ''text'') (results out) =
        map (\<lambda>t. Some (Str t)) (filter (\<lambda>t. \<not> blank t) (take 10 texts))"
    and "map fst (new_calls w w') = map (take 512) (filter (\<lambda>t. \<not> blank t) (take 10 texts))"
    by (simp_all add: strip_filter)
next
  let ?kept = "filter (\<lambda>t. \<not> blank t) (take 10 texts)"
  assume ne: "?kept \<noteq> []"
  then have t: "texts \<noteq> []"
    by auto
  have "length ?kept \<le> 10"
    by (rule order_trans [OF length_filter_le]) simp
  then have k: "take 10 ?kept = ?kept"
    by simp
  have "batch_loop p ?kept [] w = batch_loop p (take 10 texts) [] w" for p
    using batch_loop_filter [of p "take 10 texts" "[]" w] by (simp add: strip_filter)
  with ne t k show "batch_analyze_sentiment sp texts w = batch_analyze_sentiment sp ?kept w"
    by (cases sp) (simp_all add: batch_analyze_sentiment_def)
qed

theorem batch_skips_blank_in_order_witness:
  "batch_analyze_sentiment (Some (stub_pipeline (py ''NEGATIVE'') (52 / 100)))
     [py ''hello'', [], py ''   '', py ''world''] w0 =
     (Inr \<lparr>results =
        [[(''text'', Str (py ''hello'')), (''sentiment'', Str NEUTRAL),
          (''confidence'', Num (52 / 100))],
         [(''text'', Str (py ''world'')), (''sentiment'', Str NEUTRAL),
          (''confidence'', Num (52 / 100))]]\<rparr>,
      \<lparr>model = 2,
       calls = [(py ''hello'', Inr \<lparr>label = py ''NEGATIVE'', score = 52 / 100\<rparr>),
                (py ''world'', Inr \<lparr>label = py ''NEGATIVE'', score = 52 / 100\<rparr>)]\<rparr>) \<and>
   filter (\<lambda>t. \<not> blank t) (take 10 [py ''hello'', [], py ''   '', py ''world'']) =
     [py ''hello'', py ''world''] \<and>
   batch_analyze_sentiment (Some (stub_pipeline (py ''NEGATIVE'') (52 / 100)))
     [py ''hello'', [], py ''   '', py ''world''] w0 =
   batch_analyze_sentiment (Some (stub_pipeline (py ''NEGATIVE'') (52 / 100)))
     [py ''hello'', py ''world''] w0"
proof -
  have run: "batch_analyze_sentiment (Some (stub_pipeline (py ''NEGATIVE'') (52 / 100)))
     [py ''hello'', [], py ''   '', py ''world''] w0 =
     (Inr \<lparr>results =
        [[(''text'', Str (py ''hello'')), (''sentiment'', Str NEUTRAL),
          (''confidence'', Num (52 / 100))],
         [(''text'', Str (py ''world'')), (''sentiment'', Str NEUTRAL),
          (''confidence'', Num (52 / 100))]]\<rparr>,
      \<lparr>model = 2,
       calls = [(py ''hello'', Inr \<lparr>label = py ''NEGATIVE'', score = 52 / 100\<rparr>),
                (py ''world'', Inr \<lparr>label = py ''NEGATIVE'', score = 52 / 100\<rparr>)]\<rparr>)"
    by (simp add: batch_analyze_sentiment_def stub_pipeline_def call_pipeline_def w0_def
        strip_def py_def isspace_def py_round_def round_half_even_def Let_def float_0_6_def)
  have kept: "filter (\<lambda>t. \<not> blank t) (take 10 [py ''hello'', [], py ''   '', py ''world'']) =
     [py ''hello'', py ''world'']"
    by (simp add: blank_def py_def isspace_def)
  from batch_skips_blank_in_order
    [of "Some (stub_pipeline (py ''NEGATIVE'') (52 / 100))"
      "[py ''hello'', [], py ''   '', py ''world'']" w0]
    run kept
  show ?thesis
    by simp
qed

text \<open>
  C10. A list that is not empty but holds only empty or whitespace-only texts passes the
  validation: the answer is not EmptyBatch but a success with an empty \<open>results\<close> list,
  and the pipeline is not called.
\<close>

theorem blank_batch_succeeds:
  assumes "texts \<noteq> []" and "\<forall>t \<in> set texts. blank t"
  shows "batch_analyze_sentiment (Some p) texts w = (Inr \<lparr>results = []\<rparr>, w) \<and>
         fst (batch_analyze_sentiment (Some p) texts w) \<noteq> Inl EmptyBatch \<and>
         new_calls w (snd (batch_analyze_sentiment (Some p) texts w)) = []"
proof -
  from assms(2) have "\<forall>t \<in> set (take 10 texts). strip t = []"
    by (auto simp: strip_empty_iff dest: in_set_takeD)
  then have "batch_loop p (take 10 texts) [] w = (Inr [], w)"
    by (rule batch_loop_blank)
  with assms(1) show ?thesis
    by (simp add: batch_analyze_sentiment_def new_calls_self)
qed

theorem blank_batch_succeeds_witness:
  "[[], py ''   ''] \<noteq> [] \<and> blank [] \<and> blank (py ''   '') \<and>
   batch_analyze_sentiment (Some (stub_pipeline (py ''POSITIVE'') (95 / 100))) [[], py ''   ''] w0 =
     (Inr \<lparr>results = []\<rparr>, w0)"
proof -
  have n: "[[], py ''   ''] \<noteq> ([] :: str list)"
    by simp
  have e: "blank []" and s: "blank (py ''   '')"
    by (simp_all add: blank_def py_def isspace_def)
  then have b: "\<forall>t \<in> set [[], py ''   '']. blank t"
    by simp
  from blank_batch_succeeds [OF n b, of "stub_pipeline (py ''POSITIVE'') (95 / 100)" w0] n e s
  show ?thesis
    by simp
qed

section \<open>The shape of the responses\<close>

text \<open>
  C8. The \<open>all_scores\<close> list of a successful single-text response has exactly one
  entry, with the raw label of the pipeline and its score rounded to 4 decimal places.
  Every record of a successful batch answer has exactly the keys \<open>text\<close>,
  \<open>sentiment\<close> and \<open>confidence\<close>, hence no detail list.
\<close>

theorem detail_list_single_only:
  "(strip input_text \<noteq> [] \<and> p (take 512 input_text) (model w) = (Inr result, m') \<longrightarrow>
      (\<exists>out. fst (analyze_sentiment (Some p) input_text w) = Inr out \<and>
         all_scores out = [[(''label'', Str (label result)),
                            (''score'', Num (py_round (score result) 4))]])) \<and>
   (batch_analyze_sentiment sp texts w = (Inr bout, w') \<longrightarrow>
      (\<forall>d \<in> set (results bout). map fst d = [''text'', ''sentiment'', ''confidence'']))"
proof (intro conjI impI)
  assume "strip input_text \<noteq> [] \<and> p (take 512 input_text) (model w) = (Inr result, m')"
  with analyze_sentiment_ok [of input_text p w result m']
  show "\<exists>out. fst (analyze_sentiment (Some p) input_text w) = Inr out \<and>
         all_scores out = [[(''label'', Str (label result)),
                            (''score'', Num (py_round (score result) 4))]]"
    by simp
next
  assume "batch_analyze_sentiment sp texts w = (Inr bout, w')"
  then obtain q where l: "batch_loop q (take 10 texts) [] w = (Inr (results bout), w')"
    by (rule batch_success_cases)
  show "\<forall>d \<in> set (results bout). map fst d = [''text'', ''sentiment'', ''confidence'']"
    by (rule batch_loop_keys [OF l]) simp
qed

theorem detail_list_single_only_witness:
  "strip (py ''meh'') \<noteq> [] \<and>
   stub_pipeline (py ''NEGATIVE'') (52 / 100) (take 512 (py ''meh'')) (model w0) =
     (Inr \<lparr>label = py ''NEGATIVE'', score = 52 / 100\<rparr>, 1) \<and>
   (\<exists>out. fst (analyze_sentiment (Some (stub_pipeline (py ''NEGATIVE'') (52 / 100))) (py ''meh'') w0)
             = Inr out \<and>
          sentiment out = NEUTRAL \<and>
          all_scores out = [[(''label'', Str (py ''NEGATIVE'')), (''score'', Num (52 / 100))]]) \<and>
   batch_analyze_sentiment (Some (stub_pipeline (py ''NEGATIVE'') (52 / 100))) [py ''meh''] w0 =
     (Inr \<lparr>results = [[(''text'', Str (py ''meh'')), (''sentiment'', Str NEUTRAL),
                        (''confidence'', Num (52 / 100))]]\<rparr>,
      \<lparr>model = 1,
       calls = [(py ''meh'', Inr \<lparr>label = py ''NEGATIVE'', score = 52 / 100\<rparr>)]\<rparr>) \<and>
   map fst [(''text'', Str (py ''meh'')), (''sentiment'', Str NEUTRAL),
            (''confidence'', Num (52 / 100))] = [''text'', ''sentiment'', ''confidence'']"
proof -
  have h: "strip (py ''meh'') \<noteq> []"
    by (simp add: strip_def py_def isspace_def)
  have a: "stub_pipeline (py ''NEGATIVE'') (52 / 100) (take 512 (py ''meh'')) (model w0) =
     (Inr \<lparr>label = py ''NEGATIVE'', score = 52 / 100\<rparr>, 1)"
    by (simp add: stub_pipeline_def w0_def)
  have run: "batch_analyze_sentiment (Some (stub_pipeline (py ''NEGATIVE'') (52 / 100))) [py ''meh''] w0 =
     (Inr \<lparr>results = [[(''text'', Str (py ''meh'')), (''sentiment'', Str NEUTRAL),
                        (''confidence'', Num (52 / 100))]]\<rparr>,
      \<lparr>model = 1,
       calls = [(py ''meh'', Inr \<lparr>label = py ''NEGATIVE'', score = 52 / 100\<rparr>)]\<rparr>)"
    by (simp add: batch_analyze_sentiment_def stub_pipeline_def call_pipeline_def w0_def
        strip_def py_def isspace_def py_round_def round_half_even_def Let_def float_0_6_def)
  have sent: "\<exists>out. fst (analyze_sentiment (Some (stub_pipeline (py ''NEGATIVE'') (52 / 100))) (py ''meh'') w0)
             = Inr out \<and>
          sentiment out = NEUTRAL \<and>
          all_scores out = [[(''label'', Str (py ''NEGATIVE'')), (''score'', Num (52 / 100))]]"
    by (simp add: analyze_sentiment_def stub_pipeline_def call_pipeline_def w0_def
        strip_def py_def isspace_def py_round_def round_half_even_def Let_def float_0_6_def)
  from detail_list_single_only
    [of "py ''meh''" "stub_pipeline (py ''NEGATIVE'') (52 / 100)" w0
      "\<lparr>label = py ''NEGATIVE'', score = 52 / 100\<rparr>" 1
      "Some (stub_pipeline (py ''NEGATIVE'') (52 / 100))" "[py ''meh'']"]
    h a run sent
  show ?thesis
    by simp
qed

end
